theory Spec2Isabelle
  imports Main "HOL-Library.Word"
begin

section \<open>Values shared by the store and the request handler\<close>

type_synonym byte = "8 word"

text \<open>
  An \<open>ID\<close> is kept in its printable form (the spec: a printable fixed-length hex
  string); the store only compares ids and uses them as keys of its table.
  Times and durations are Go's nanosecond counts.
\<close>

type_synonym ID = string
type_synonym Time = int
type_synonym Duration = int

datatype error =
    ErrPasteNotFound
  | QuotaExceeded
  | ExhaustionError
  | NoPasteProvided
  | InvalidPath string
  | Errno string

text \<open>
  Package-level values that \<open>storage_mmap.go\<close> and the handler read but that are
  declared elsewhere: the configured lifetime, the start time, the two path
  conversions, the site URL and the text of an error (\<open>err.Error()\<close>). They are
  parameters of every operation.
\<close>

record config =
  lifeTime :: Duration
  startTime :: Time
  pathFromID :: "ID \<Rightarrow> string"
  idFromPath :: "string \<Rightarrow> error + ID"
  siteURL :: string
  errMsg :: "error \<Rightarrow> string"

section \<open>Quota tracker\<close>

record Stats =
  currentCount :: int
  currentBytes :: int
  MaxNumber :: int
  MaxStorage :: int

text \<open>
  Modelled from the spec: the type \<open>Stats\<close> and its methods \<open>hasSpaceFor\<close>,
  \<open>makeSpaceFor\<close>, \<open>freeSpace\<close> (and the exported \<open>MakeSpaceFor\<close>, \<open>FreeSpace\<close> the
  handler calls) are not among the source files. The spec: a reservation fails with
  QuotaExceeded if either ceiling would be exceeded (a ceiling of 0 is unbounded),
  otherwise increments the count by one and the bytes by the size; a release decrements
  both and never fails. \<open>storage_mmap.go\<close> calls the check and the increment separately.
\<close>

definition hasSpaceFor :: "Stats \<Rightarrow> int \<Rightarrow> error option" where
  "hasSpaceFor st n =
     (if MaxNumber st > 0 \<and> currentCount st + 1 > MaxNumber st then Some QuotaExceeded
      else if MaxStorage st > 0 \<and> currentBytes st + n > MaxStorage st then Some QuotaExceeded
      else None)"

definition makeSpaceFor :: "Stats \<Rightarrow> int \<Rightarrow> Stats" where
  "makeSpaceFor st n =
     st\<lparr>currentCount := currentCount st + 1, currentBytes := currentBytes st + n\<rparr>"

definition freeSpace :: "Stats \<Rightarrow> int \<Rightarrow> Stats" where
  "freeSpace st n =
     st\<lparr>currentCount := currentCount st - 1, currentBytes := currentBytes st - n\<rparr>"

definition MakeSpaceFor :: "Stats \<Rightarrow> int \<Rightarrow> error option \<times> Stats" where
  "MakeSpaceFor st n =
     (case hasSpaceFor st n of
        Some e \<Rightarrow> (Some e, st)
      | None \<Rightarrow> (None, makeSpaceFor st n))"

definition FreeSpace :: "Stats \<Rightarrow> int \<Rightarrow> Stats" where
  "FreeSpace st n = freeSpace st n"

definition quota_ok :: "Stats \<Rightarrow> bool" where
  "quota_ok st \<longleftrightarrow>
     (MaxNumber st > 0 \<longrightarrow> currentCount st \<le> MaxNumber st) \<and>
     (MaxStorage st > 0 \<longrightarrow> currentBytes st \<le> MaxStorage st)"

section \<open>The file system, the mappings and the armed timers\<close>

text \<open>
  What the store reaches through \<open>os\<close> and \<open>syscall\<close>: the files by path, the live
  memory mappings by base address (with the bytes visible through them), and the next
  address the kernel hands out. \<open>timers\<close> records every call of \<open>setupPasteDeletion\<close>
  (the function is not among the source files) as the pair of its id and duration.
\<close>

datatype node = Dir Time | File Time "byte list"

record region =
  addr :: nat
  rlen :: nat

record runtime =
  files :: "string \<rightharpoonup> node"
  mapped :: "nat \<rightharpoonup> byte list"
  brk :: nat
  timers :: "(ID \<times> Duration) list"

text \<open>
  What the environment decides during one operation: the candidates the random
  generator draws (one per allowed try), the clock, and whether a system call fails on
  its own account (\<open>Some e\<close>) or is left to succeed (\<open>None\<close>).
\<close>

record env =
  draws :: "ID list"
  now :: Time
  write_err :: "error option"
  mmap_err :: "error option"
  munmap_err :: "error option"
  remove_err :: "error option"

definition os_Remove :: "env \<Rightarrow> runtime \<Rightarrow> string \<Rightarrow> error option \<times> runtime" where
  "os_Remove ev w p =
     (case remove_err ev of
        Some e \<Rightarrow> (Some e, w)
      | None \<Rightarrow>
          (case files w p of
             None \<Rightarrow> (Some (Errno ''ENOENT''), w)
           | Some _ \<Rightarrow> (None, w\<lparr>files := (files w)(p := None)\<rparr>)))"

text \<open>
  Modelled from the spec: \<open>writeNewFile\<close> is not among the source files; the spec
  says that Put writes the file holding the content, and that this may fail.
\<close>

definition writeNewFile :: "env \<Rightarrow> runtime \<Rightarrow> string \<Rightarrow> byte list \<Rightarrow> error option \<times> runtime" where
  "writeNewFile ev w p content =
     (case write_err ev of
        Some e \<Rightarrow> (Some e, w)
      | None \<Rightarrow> (None, w\<lparr>files := (files w)(p \<mapsto> File (now ev) content)\<rparr>))"

text \<open>\<open>os.Open\<close>: the open file is stood for by its path; \<open>None\<close> is the nil file.\<close>

definition os_Open :: "runtime \<Rightarrow> string \<Rightarrow> string option" where
  "os_Open w p = (case files w p of None \<Rightarrow> None | Some _ \<Rightarrow> Some p)"

text \<open>
  \<open>getMmap\<close>: \<open>syscall.Mmap(fd, 0, length, PROT_READ, MAP_SHARED)\<close>. A nil file has the
  descriptor -1 (EBADF); Go's \<open>syscall.Mmap\<close> refuses a length \<open>\<le> 0\<close> (EINVAL); a
  directory cannot be mapped (ENODEV). Otherwise the first \<open>length\<close> bytes of the file
  become visible at a fresh address. The source always passes the file's own length.
\<close>

definition getMmap :: "env \<Rightarrow> runtime \<Rightarrow> string option \<Rightarrow> int \<Rightarrow> error + (region \<times> runtime)" where
  "getMmap ev w file n =
     (case file of
        None \<Rightarrow> Inl (Errno ''EBADF'')
      | Some p \<Rightarrow>
          if n \<le> 0 then Inl (Errno ''EINVAL'')
          else
            (case mmap_err ev of
               Some e \<Rightarrow> Inl e
             | None \<Rightarrow>
                 (case files w p of
                    Some (File t d) \<Rightarrow>
                      Inr (\<lparr>addr = brk w, rlen = nat n\<rparr>,
                           w\<lparr>mapped := (mapped w)(brk w \<mapsto> take (nat n) d), brk := brk w + 1\<rparr>)
                  | _ \<Rightarrow> Inl (Errno ''ENODEV''))))"

text \<open>\<open>syscall.Munmap\<close>: EINVAL when the slice is not an active mapping.\<close>

definition os_Munmap :: "env \<Rightarrow> runtime \<Rightarrow> region \<Rightarrow> error option \<times> runtime" where
  "os_Munmap ev w r =
     (case munmap_err ev of
        Some e \<Rightarrow> (Some e, w)
      | None \<Rightarrow>
          (case mapped w (addr r) of
             None \<Rightarrow> (Some (Errno ''EINVAL''), w)
           | Some _ \<Rightarrow> (None, w\<lparr>mapped := (mapped w)(addr r := None)\<rparr>)))"

section \<open>The memory-mapped store\<close>

text \<open>
  \<open>mmapCache\<close> as the struct has it; \<open>reading\<close> is the counter of the
  \<open>sync.WaitGroup\<close>. The table \<open>map[ID]mmapCache\<close> holds the structs by value, so
  \<open>cached, e := s.cache[id]\<close> is a copy, counter included. The field \<open>size\<close> is
  \<open>csize\<close> here, and the field \<open>cache\<close> of \<open>MmapPaste\<close> (the address of Get's
  local copy, which only the handle reaches) is the copy itself, \<open>pcache\<close>.
\<close>

record mmapCache =
  reading :: int
  modTime :: Time
  path :: string
  mmap :: region
  csize :: int

record MmapStore =
  cache :: "ID \<rightharpoonup> mmapCache"
  dir :: string
  stats :: Stats

record MmapPaste =
  content :: region
  pcache :: mmapCache

type_synonym state = "MmapStore \<times> runtime"

text \<open>
  Modelled from the spec: \<open>randomID\<close> is not among the source files. The spec: it
  retries while the candidate is not available and fails with ExhaustionError after a
  bounded number of tries. The candidates of the tries are the list \<open>draws\<close>.
\<close>

fun randomID :: "(ID \<Rightarrow> bool) \<Rightarrow> ID list \<Rightarrow> error + ID" where
  "randomID available [] = Inl ExhaustionError"
| "randomID available (c # cs) = (if available c then Inr c else randomID available cs)"

definition Get :: "MmapStore \<Rightarrow> ID \<Rightarrow> error + MmapPaste" where
  "Get s i =
     (case cache s i of
        None \<Rightarrow> Inl ErrPasteNotFound
      | Some cached \<Rightarrow>
          Inr \<lparr>content = mmap cached, pcache = cached\<lparr>reading := reading cached + 1\<rparr>\<rparr>)"

text \<open>
  Reading through a handle reads the mapped memory: \<open>None\<close> is the fault of an access
  to an address that is no longer mapped. \<open>Close\<close> is \<open>c.cache.reading.Done()\<close>, on
  the handle's own copy of the entry.
\<close>

definition ReadAll :: "runtime \<Rightarrow> MmapPaste \<Rightarrow> byte list option" where
  "ReadAll w p = mapped w (addr (content p))"

definition Close :: "MmapPaste \<Rightarrow> MmapPaste" where
  "Close p = p\<lparr>pcache := (pcache p)\<lparr>reading := reading (pcache p) - 1\<rparr>\<rparr>"

definition Put :: "config \<Rightarrow> env \<Rightarrow> state \<Rightarrow> byte list \<Rightarrow> (error + ID) \<times> state" where
  "Put cfg ev st bs =
     (case st of (s, w) \<Rightarrow>
        let n = int (length bs) in
        case hasSpaceFor (stats s) n of
          Some e \<Rightarrow> (Inl e, (s, w))
        | None \<Rightarrow>
            (case randomID (\<lambda>i. cache s i = None) (draws ev) of
               Inl e \<Rightarrow> (Inl e, (s, w))
             | Inr i \<Rightarrow>
                 let pastePath = pathFromID cfg i in
                 (case writeNewFile ev w pastePath bs of
                    (Some e, w1) \<Rightarrow> (Inl e, (s, w1))
                  | (None, w1) \<Rightarrow>
                      (case getMmap ev w1 (os_Open w1 pastePath) n of
                         Inl e \<Rightarrow> (Inl e, (s, w1))
                       | Inr (data, w2) \<Rightarrow>
                           (Inr i,
                            (s\<lparr>stats := makeSpaceFor (stats s) n,
                               cache := (cache s)(i \<mapsto>
                                 \<lparr>reading = 0, modTime = now ev, path = pastePath,
                                  mmap = data, csize = n\<rparr>)\<rparr>,
                             w2))))))"

text \<open>
  \<open>Delete\<close> returns \<open>None\<close> when it never returns: \<open>cached.reading.Wait()\<close> waits on
  the counter of the local copy \<open>cached\<close>, which nothing else can reach, so a counter
  other than 0 would block for ever.
\<close>

definition Delete :: "env \<Rightarrow> state \<Rightarrow> ID \<Rightarrow> (error option \<times> state) option" where
  "Delete ev st i =
     (case st of (s, w) \<Rightarrow>
        case cache s i of
          None \<Rightarrow> Some (Some ErrPasteNotFound, (s, w))
        | Some cached \<Rightarrow>
            let s1 = s\<lparr>cache := (cache s)(i := None)\<rparr> in
            if reading cached \<noteq> 0 then None
            else
              (case os_Munmap ev w (mmap cached) of
                 (Some e, w1) \<Rightarrow> Some (Some e, (s1, w1))
               | (None, w1) \<Rightarrow>
                   (case os_Remove ev w1 (path cached) of
                      (Some e, w2) \<Rightarrow> Some (Some e, (s1, w2))
                    | (None, w2) \<Rightarrow>
                        Some (None, (s1\<lparr>stats := freeSpace (stats s1) (csize cached)\<rparr>, w2)))))"

record FileInfo =
  IsDir :: bool
  ModTime :: Time
  Size :: int

text \<open>
  \<open>Time.Add\<close> and \<open>Time.Sub\<close>; \<open>Sub\<close> saturates at the least and the greatest
  \<open>Duration\<close> (a signed 64-bit count of nanoseconds).
\<close>

definition minDuration :: Duration where
  "minDuration = - (2 ^ 63)"

definition maxDuration :: Duration where
  "maxDuration = 2 ^ 63 - 1"

definition time_Add :: "Time \<Rightarrow> Duration \<Rightarrow> Time" where
  "time_Add t d = t + d"

definition time_Sub :: "Time \<Rightarrow> Time \<Rightarrow> Duration" where
  "time_Sub t u =
     (if t - u < minDuration then minDuration
      else if t - u > maxDuration then maxDuration
      else t - u)"

definition Recover :: "config \<Rightarrow> env \<Rightarrow> state \<Rightarrow> string \<Rightarrow> FileInfo \<Rightarrow> error option
    \<Rightarrow> error option \<times> state" where
  "Recover cfg ev st p fileInfo err =
     (case st of (s, w) \<Rightarrow>
        if err \<noteq> None \<or> IsDir fileInfo then (err, (s, w))
        else
          (case idFromPath cfg p of
             Inl e \<Rightarrow> (Some e, (s, w))
           | Inr i \<Rightarrow>
               let mt = ModTime fileInfo;
                   deathTime = time_Add mt (lifeTime cfg);
                   lifeLeft = time_Sub deathTime (startTime cfg)
               in
               if lifeTime cfg > 0 \<and> lifeLeft \<le> 0 then
                 (case os_Remove ev w p of (r, w1) \<Rightarrow> (r, (s, w1)))
               else
                 let n = Size fileInfo in
                 if n = 0 then
                   (case os_Remove ev w p of (r, w1) \<Rightarrow> (r, (s, w1)))
                 else
                   (case hasSpaceFor (stats s) n of
                      Some e \<Rightarrow> (Some e, (s, w))
                    | None \<Rightarrow>
                        (case getMmap ev w (os_Open w p) n of
                           Inl e \<Rightarrow> (Some e, (s, w))
                         | Inr (m, w1) \<Rightarrow>
                             (None,
                              (s\<lparr>stats := makeSpaceFor (stats s) n,
                                 cache := (cache s)(i \<mapsto>
                                   \<lparr>reading = 0, modTime = mt, path = p,
                                    mmap = m, csize = n\<rparr>)\<rparr>,
                               w1\<lparr>timers := timers w1 @ [(i, lifeLeft)]\<rparr>))))))"

text \<open>\<open>NewMmapStore\<close> before the recovery walk: an empty table.\<close>

definition new_store :: "string \<Rightarrow> int \<Rightarrow> int \<Rightarrow> MmapStore" where
  "new_store d mn ms =
     \<lparr>cache = Map.empty, dir = d,
      stats = \<lparr>currentCount = 0, currentBytes = 0, MaxNumber = mn, MaxStorage = ms\<rparr>\<rparr>"

section \<open>Sequences of operations\<close>

text \<open>
  Modelled from the spec: \<open>setupSubdirs\<close>, which walks the storage directory and calls
  \<open>Recover\<close>, is not among the source files. The spec: the recovery routine walks the
  persisted directory tree and reads each entry's modification time and size from the
  file system. \<open>lstat\<close> is what such a walk hands to the callback for a path.
\<close>

definition lstat :: "runtime \<Rightarrow> string \<Rightarrow> FileInfo \<times> error option" where
  "lstat w p =
     (case files w p of
        None \<Rightarrow> (\<lparr>IsDir = False, ModTime = 0, Size = 0\<rparr>, Some (Errno ''ENOENT''))
      | Some (Dir t) \<Rightarrow> (\<lparr>IsDir = True, ModTime = t, Size = 0\<rparr>, None)
      | Some (File t d) \<Rightarrow> (\<lparr>IsDir = False, ModTime = t, Size = int (length d)\<rparr>, None))"

text \<open>
  Put, Delete and Recover each hold the store's lock while they touch the table and the
  counters, so what another goroutine can observe is the state between two operations.
  A run is \<open>None\<close> when one of its operations never returns.
\<close>

datatype op = OpPut env "byte list" | OpDelete env ID | OpRecover env string

fun step :: "config \<Rightarrow> op \<Rightarrow> state \<Rightarrow> state option" where
  "step cfg (OpPut ev bs) st = Some (snd (Put cfg ev st bs))"
| "step cfg (OpDelete ev i) st = map_option snd (Delete ev st i)"
| "step cfg (OpRecover ev p) st =
     (case lstat (snd st) p of (fi, err) \<Rightarrow> Some (snd (Recover cfg ev st p fi err)))"

fun run :: "config \<Rightarrow> op list \<Rightarrow> state \<Rightarrow> state option" where
  "run cfg [] st = Some st"
| "run cfg (x # xs) st = (case step cfg x st of None \<Rightarrow> None | Some st' \<Rightarrow> run cfg xs st')"

text \<open>
  Every entry of the table has a reader count of 0 (the struct literals of Put and
  Recover leave \<open>reading\<close> at its zero value, and Get counts on a copy) and a size that
  is a length.
\<close>

definition entries_ok :: "MmapStore \<Rightarrow> bool" where
  "entries_ok s \<longleftrightarrow> (\<forall>i c. cache s i = Some c \<longrightarrow> reading c = 0 \<and> 0 \<le> csize c)"

definition store_inv :: "int \<Rightarrow> int \<Rightarrow> MmapStore \<Rightarrow> bool" where
  "store_inv mn ms s \<longleftrightarrow>
     quota_ok (stats s) \<and> entries_ok s \<and> MaxNumber (stats s) = mn \<and> MaxStorage (stats s) = ms"

section \<open>The POST handler\<close>

text \<open>
  The request as \<open>getContentFromForm\<close> sees it: the value of the form field, and the
  form file (\<open>None\<close>: \<open>FormFile\<close> failed; \<open>Some (Inl e)\<close>: reading it failed). The
  response writer keeps the status code (0: no header written yet) and the body.
\<close>

record request =
  FormValue :: "byte list"
  FormFile :: "(error + byte list) option"

record response =
  status :: nat
  body :: string

definition StatusBadRequest :: nat where
  "StatusBadRequest = 400"

definition StatusInternalServerError :: nat where
  "StatusInternalServerError = 500"

definition StatusServiceUnavailable :: nat where
  "StatusServiceUnavailable = 503"

definition getContentFromForm :: "request \<Rightarrow> error + byte list" where
  "getContentFromForm r =
     (if length (FormValue r) > 0 then Inr (FormValue r)
      else
        (case FormFile r of
           Some (Inr bs) \<Rightarrow> if length bs > 0 then Inr bs else Inl NoPasteProvided
         | _ \<Rightarrow> Inl NoPasteProvided))"

text \<open>
  \<open>net/http\<close>: the first \<open>WriteHeader\<close> fixes the status, a write without one sends
  200 first, and \<open>http.Error\<close> writes the header and then the message and a newline.
\<close>

definition WriteHeader :: "response \<Rightarrow> nat \<Rightarrow> response" where
  "WriteHeader w code = (if status w = 0 then w\<lparr>status := code\<rparr> else w)"

definition Write :: "response \<Rightarrow> string \<Rightarrow> response" where
  "Write w txt = (WriteHeader w 200)\<lparr>body := body w @ txt\<rparr>"

definition http_Error :: "response \<Rightarrow> string \<Rightarrow> nat \<Rightarrow> response" where
  "http_Error w msg code = Write (WriteHeader w code) (msg @ [CHR 0x0A])"

text \<open>
  What the handler works on: the quota tracker, the store behind the \<open>storage.Store\<close>
  interface, and the calls of \<open>storage.SetupPasteDeletion\<close> made so far (the function
  is not among the source files), each as its id, size and lifetime. The store's
  \<open>Put\<close> is a parameter; it is given the tracker too, which the store may share.
\<close>

type_synonym 'st served = "Stats \<times> 'st \<times> (ID \<times> int \<times> Duration) list"

definition handlePost :: "config \<Rightarrow> (byte list \<Rightarrow> Stats \<times> 'st \<Rightarrow> (error + ID) \<times> (Stats \<times> 'st))
    \<Rightarrow> response \<Rightarrow> request \<Rightarrow> 'st served \<Rightarrow> response \<times> 'st served" where
  "handlePost cfg put w r sv =
     (case sv of (st, store, armed) \<Rightarrow>
        case getContentFromForm r of
          Inl e \<Rightarrow> (http_Error w (errMsg cfg e) StatusBadRequest, (st, store, armed))
        | Inr bs \<Rightarrow>
            let n = int (length bs) in
            (case MakeSpaceFor st n of (res, st1) \<Rightarrow>
               let w1 = (case res of
                           Some e \<Rightarrow> http_Error w (errMsg cfg e) StatusServiceUnavailable
                         | None \<Rightarrow> w)
               in
               (case put bs (st1, store) of
                  (Inl e, (st2, store2)) \<Rightarrow>
                    (http_Error w1 (errMsg cfg e) StatusInternalServerError,
                     (FreeSpace st2 n, store2, armed))
                | (Inr i, (st2, store2)) \<Rightarrow>
                    (Write w1 (siteURL cfg @ ''/'' @ i @ [CHR 0x0A]),
                     (st2, store2, armed @ [(i, n, lifeTime cfg)])))))"

section \<open>Concrete inputs\<close>

definition cfg0 :: config where
  "cfg0 = \<lparr>lifeTime = 100, startTime = 1000,
           pathFromID = (\<lambda>i. take 2 i @ ''/'' @ drop 2 i),
           idFromPath = (\<lambda>p. if length p = 9 \<and> p ! 2 = CHR ''/''
                              then Inr (take 2 p @ drop 3 p) else Inl (InvalidPath p)),
           siteURL = ''http://paste.cat'',
           errMsg = (\<lambda>e. case e of
               ErrPasteNotFound \<Rightarrow> ''paste not found''
             | QuotaExceeded \<Rightarrow> ''quota exceeded''
             | ExhaustionError \<Rightarrow> ''no unused id''
             | NoPasteProvided \<Rightarrow> ''no paste provided''
             | InvalidPath p \<Rightarrow> ''invalid path''
             | Errno m \<Rightarrow> m)\<rparr>"

definition env0 :: env where
  "env0 = \<lparr>draws = [''a63d03b9'', ''00ff00ff''], now = 1500,
           write_err = None, mmap_err = None, munmap_err = None, remove_err = None\<rparr>"

definition env_munmap_fails :: env where
  "env_munmap_fails = \<lparr>draws = [], now = 1600,
           write_err = None, mmap_err = None, munmap_err = Some (Errno ''ENOMEM''),
           remove_err = None\<rparr>"

definition env_remove_fails :: env where
  "env_remove_fails = \<lparr>draws = [], now = 1600,
           write_err = None, mmap_err = None, munmap_err = None,
           remove_err = Some (Errno ''EACCES'')\<rparr>"

definition w0 :: runtime where
  "w0 = \<lparr>files = Map.empty, mapped = Map.empty, brk = 0, timers = []\<rparr>"

text \<open>The store and the runtime after one paste \<open>[1, 2, 3]\<close> was put at time 1500.\<close>

definition c_live :: mmapCache where
  "c_live = \<lparr>reading = 0, modTime = 1500, path = ''a6/3d03b9'',
             mmap = \<lparr>addr = 0, rlen = 3\<rparr>, csize = 3\<rparr>"

definition s_live :: MmapStore where
  "s_live = \<lparr>cache = [''a63d03b9'' \<mapsto> c_live], dir = ''pastes'',
     stats = \<lparr>currentCount = 1, currentBytes = 3, MaxNumber = 1, MaxStorage = 0\<rparr>\<rparr>"

definition w_live :: runtime where
  "w_live = \<lparr>files = [''a6/3d03b9'' \<mapsto> File 1500 [1, 2, 3]], mapped = [0 \<mapsto> [1, 2, 3]],
     brk = 1, timers = []\<rparr>"

text \<open>The handle a Get of that paste returns, and what is left after its Delete.\<close>

definition h_live :: MmapPaste where
  "h_live = \<lparr>content = \<lparr>addr = 0, rlen = 3\<rparr>,
             pcache = \<lparr>reading = 1, modTime = 1500, path = ''a6/3d03b9'',
                       mmap = \<lparr>addr = 0, rlen = 3\<rparr>, csize = 3\<rparr>\<rparr>"

definition w_gone :: runtime where
  "w_gone = \<lparr>files = Map.empty, mapped = Map.empty, brk = 1, timers = []\<rparr>"

text \<open>The table without the entry, with the counters still charged for it.\<close>

definition s_leak :: MmapStore where
  "s_leak = \<lparr>cache = Map.empty, dir = ''pastes'',
     stats = \<lparr>currentCount = 1, currentBytes = 3, MaxNumber = 1, MaxStorage = 0\<rparr>\<rparr>"

definition w_unmapped :: runtime where
  "w_unmapped = \<lparr>files = [''a6/3d03b9'' \<mapsto> File 1500 [1, 2, 3]], mapped = Map.empty,
     brk = 1, timers = []\<rparr>"

text \<open>
  Files found by a recovery that starts at time 1000 with a lifetime of 100: one last
  modified at 800 (expired), one empty, one modified at 950 (half its life left), one
  modified at 960, and one whose name is no id.
\<close>

definition fi_old :: FileInfo where
  "fi_old = \<lparr>IsDir = False, ModTime = 800, Size = 3\<rparr>"

definition fi_empty :: FileInfo where
  "fi_empty = \<lparr>IsDir = False, ModTime = 990, Size = 0\<rparr>"

definition fi_half :: FileInfo where
  "fi_half = \<lparr>IsDir = False, ModTime = 950, Size = 3\<rparr>"

definition fi_late :: FileInfo where
  "fi_late = \<lparr>IsDir = False, ModTime = 960, Size = 2\<rparr>"

definition w_disk :: runtime where
  "w_disk = \<lparr>files = [''a6/3d03b9'' \<mapsto> File 800 [1, 2, 3], ''00/ff00ff'' \<mapsto> File 990 [],
                     ''12/345678'' \<mapsto> File 950 [7, 8, 9], ''ab/cdef01'' \<mapsto> File 960 [4, 5],
                     ''README'' \<mapsto> File 950 [7, 8, 9]],
              mapped = Map.empty, brk = 0, timers = []\<rparr>"

text \<open>
  The store and the runtime once that recovery, under a ceiling of one paste, has
  registered the file modified at 950.
\<close>

definition s_rec :: MmapStore where
  "s_rec = \<lparr>cache = [''12345678'' \<mapsto>
                \<lparr>reading = 0, modTime = 950, path = ''12/345678'',
                 mmap = \<lparr>addr = 0, rlen = 3\<rparr>, csize = 3\<rparr>],
            dir = ''pastes'',
            stats = \<lparr>currentCount = 1, currentBytes = 3, MaxNumber = 1, MaxStorage = 0\<rparr>\<rparr>"

definition w_rec :: runtime where
  "w_rec = \<lparr>files = [''a6/3d03b9'' \<mapsto> File 800 [1, 2, 3], ''00/ff00ff'' \<mapsto> File 990 [],
                    ''12/345678'' \<mapsto> File 950 [7, 8, 9], ''ab/cdef01'' \<mapsto> File 960 [4, 5],
                    ''README'' \<mapsto> File 950 [7, 8, 9]],
             mapped = [0 \<mapsto> [7, 8, 9]], brk = 1, timers = [(''12345678'', 50)]\<rparr>"

definition ops0 :: "op list" where
  "ops0 = [OpPut env0 [1, 2, 3], OpPut env0 [4, 5], OpDelete env0 ''a63d03b9'',
           OpRecover env0 ''12/345678'']"

text \<open>A store whose Put fails, and one whose Put succeeds; neither touches the tracker.\<close>

definition put_fails :: "byte list \<Rightarrow> Stats \<times> unit \<Rightarrow> (error + ID) \<times> (Stats \<times> unit)" where
  "put_fails bs sv = (Inl (Errno ''EIO''), sv)"

definition put_ok :: "byte list \<Rightarrow> Stats \<times> unit \<Rightarrow> (error + ID) \<times> (Stats \<times> unit)" where
  "put_ok bs sv = (Inr ''a63d03b9'', sv)"

definition stats_full :: Stats where
  "stats_full = \<lparr>currentCount = 1, currentBytes = 3, MaxNumber = 1, MaxStorage = 0\<rparr>"

definition req_x :: request where
  "req_x = \<lparr>FormValue = [120], FormFile = None\<rparr>"

definition resp0 :: response where
  "resp0 = \<lparr>status = 0, body = []\<rparr>"

section \<open>What the operations do\<close>

lemmas concrete_defs =
  cfg0_def env0_def env_munmap_fails_def env_remove_fails_def w0_def c_live_def s_live_def
  w_live_def h_live_def w_gone_def s_leak_def w_unmapped_def fi_old_def fi_empty_def
  fi_half_def fi_late_def w_disk_def s_rec_def w_rec_def new_store_def

lemma time_Sub_le0: "time_Sub t u \<le> 0 \<longleftrightarrow> t - u \<le> 0"
  by (simp add: time_Sub_def minDuration_def maxDuration_def)


lemma os_Remove_effect:
  "os_Remove ev w p = (r, w') \<Longrightarrow>
     timers w' = timers w \<and> mapped w' = mapped w \<and> brk w' = brk w \<and>
     (r = None \<longrightarrow> files w' p = None) \<and>
     (remove_err ev = None \<and> files w p \<noteq> None \<longrightarrow> r = None)"
  by (auto simp: os_Remove_def split: option.splits)


text \<open>A successful Put, spelled out: the new entry, the file and the mapping.\<close>

lemma Put_Inr:
  assumes "Put cfg ev (s, w) bs = (Inr i, (s', w'))"
  shows "hasSpaceFor (stats s) (int (length bs)) = None \<and>
         randomID (\<lambda>j. cache s j = None) (draws ev) = Inr i \<and>
         bs \<noteq> [] \<and>
         s' = s\<lparr>stats := makeSpaceFor (stats s) (int (length bs)),
                cache := (cache s)(i \<mapsto>
                   \<lparr>reading = 0, modTime = now ev, path = pathFromID cfg i,
                    mmap = \<lparr>addr = brk w, rlen = length bs\<rparr>, csize = int (length bs)\<rparr>)\<rparr> \<and>
         w' = w\<lparr>files := (files w)(pathFromID cfg i \<mapsto> File (now ev) bs),
                mapped := (mapped w)(brk w \<mapsto> bs), brk := brk w + 1\<rparr>"
  using assms
  by (auto simp: Put_def Let_def writeNewFile_def getMmap_def os_Open_def
      split: option.splits sum.splits prod.splits if_splits node.splits)

text \<open>Put succeeds whenever nothing stands in its way.\<close>

lemma Put_succeeds:
  assumes "bs \<noteq> []" and "hasSpaceFor (stats s) (int (length bs)) = None"
    and "randomID (\<lambda>j. cache s j = None) (draws ev) = Inr i"
    and "write_err ev = None" and "mmap_err ev = None"
  shows "fst (Put cfg ev (s, w) bs) = Inr i"
  using assms
  by (simp add: Put_def Let_def writeNewFile_def getMmap_def os_Open_def)

text \<open>Every error return of Put comes before \<open>makeSpaceFor\<close>: the store is as it was.\<close>

lemma Put_Inl:
  assumes "Put cfg ev (s, w) bs = (Inl e, (s', w'))"
  shows "s' = s"
  using assms
  by (auto simp: Put_def Let_def split: option.splits sum.splits prod.splits)

lemma put_live:
  "Put cfg0 env0 (new_store ''pastes'' 1 0, w0) [1, 2, 3] = (Inr ''a63d03b9'', (s_live, w_live))"
  by (simp add: concrete_defs Put_def hasSpaceFor_def writeNewFile_def getMmap_def os_Open_def
      makeSpaceFor_def Let_def)

lemma Recover_discards:
  assumes "\<not> IsDir fi" "idFromPath cfg p = Inr i"
    and "(lifeTime cfg > 0 \<and> ModTime fi + lifeTime cfg - startTime cfg \<le> 0) \<or> Size fi = 0"
  shows "Recover cfg ev (s, w) p fi None = (fst (os_Remove ev w p), (s, snd (os_Remove ev w p)))"
  using assms
  by (auto simp: Recover_def Let_def time_Sub_le0 time_Add_def split: prod.splits)

lemma Recover_unparsable:
  assumes "\<not> IsDir fi" "idFromPath cfg p = Inl e"
  shows "Recover cfg ev (s, w) p fi None = (Some e, (s, w))"
  using assms by (simp add: Recover_def)


lemma Recover_refused:
  assumes "\<not> IsDir fi" "idFromPath cfg p = Inr i"
    and "lifeTime cfg > 0 \<longrightarrow> 0 < ModTime fi + lifeTime cfg - startTime cfg"
    and "Size fi \<noteq> 0"
    and "hasSpaceFor (stats s) (Size fi) = Some e"
  shows "Recover cfg ev (s, w) p fi None = (Some e, (s, w))"
  using assms
  by (auto simp: Recover_def Let_def time_Sub_le0 time_Add_def split: prod.splits)

lemma Delete_error:
  assumes "cache s i = Some c" and "Delete ev (s, w) i = Some (Some e, (s', w'))"
  shows "s' = s\<lparr>cache := (cache s)(i := None)\<rparr> \<and>
         (os_Munmap ev w (mmap c) = (Some e, w') \<or>
          (\<exists>w1. os_Munmap ev w (mmap c) = (None, w1) \<and> os_Remove ev w1 (path c) = (Some e, w')))"
  using assms
  by (auto simp: Delete_def Let_def split: option.splits prod.splits if_splits)

text \<open>
  Delete does not wait for a reader. The handle of a Get counts on its own copy of the
  entry, the entry in the table stays at 0, and Delete waits on a third copy: with no
  failure of the system calls it unmaps the region and removes the file while the handle
  is open, and a read through the handle faults.
\<close>

lemma Delete_ignores_readers:
  assumes "cache s i = Some c" and "reading c = 0"
    and "mapped w (addr (mmap c)) = Some bs" and "files w (path c) \<noteq> None"
    and "munmap_err ev = None" and "remove_err ev = None"
  shows "\<exists>h s' w'. Get s i = Inr h \<and> reading (pcache h) = 1 \<and> ReadAll w h = Some bs \<and>
           Delete ev (s, w) i = Some (None, (s', w')) \<and>
           ReadAll w' h = None \<and> files w' (path c) = None"
  using assms
  by (auto simp: Get_def ReadAll_def Delete_def os_Munmap_def os_Remove_def Let_def
      split: option.splits)

subsection \<open>The quota invariant, step by step\<close>

lemma quota_ok_reserve:
  "quota_ok st \<Longrightarrow> hasSpaceFor st n = None \<Longrightarrow> quota_ok (makeSpaceFor st n)"
  by (auto simp: quota_ok_def hasSpaceFor_def makeSpaceFor_def split: if_splits)

lemma quota_ok_release:
  "quota_ok st \<Longrightarrow> 0 \<le> n \<Longrightarrow> quota_ok (freeSpace st n)"
  by (auto simp: quota_ok_def freeSpace_def)

lemma ceilings_makeSpaceFor [simp]:
  "MaxNumber (makeSpaceFor st n) = MaxNumber st" "MaxStorage (makeSpaceFor st n) = MaxStorage st"
  by (simp_all add: makeSpaceFor_def)

lemma ceilings_freeSpace [simp]:
  "MaxNumber (freeSpace st n) = MaxNumber st" "MaxStorage (freeSpace st n) = MaxStorage st"
  by (simp_all add: freeSpace_def)

lemma Put_inv:
  assumes "store_inv mn ms s" and "Put cfg ev (s, w) bs = (r, (s', w'))"
  shows "store_inv mn ms s'"
  using assms
  by (auto simp: Put_def Let_def store_inv_def entries_ok_def quota_ok_reserve
      split: option.splits sum.splits prod.splits if_splits)

lemma Delete_inv:
  assumes "store_inv mn ms s"
  shows "\<exists>r s' w'. Delete ev (s, w) i = Some (r, (s', w')) \<and> store_inv mn ms s'"
  using assms
  by (auto simp: Delete_def Let_def store_inv_def entries_ok_def quota_ok_release
      split: option.splits sum.splits prod.splits if_splits)

lemma Recover_inv:
  assumes "store_inv mn ms s" and "0 \<le> Size fi"
    and "Recover cfg ev (s, w) p fi err = (r, (s', w'))"
  shows "store_inv mn ms s'"
  using assms
  by (auto simp: Recover_def Let_def store_inv_def entries_ok_def quota_ok_reserve
      split: option.splits sum.splits prod.splits if_splits)

lemma lstat_Size: "lstat w p = (fi, err) \<Longrightarrow> 0 \<le> Size fi"
  by (auto simp: lstat_def split: option.splits node.splits)

lemma step_inv:
  assumes "store_inv mn ms (fst st)"
  shows "\<exists>st'. step cfg x st = Some st' \<and> store_inv mn ms (fst st')"
proof (cases x)
  case (OpPut ev bs)
  obtain s w where st: "st = (s, w)" by (cases st)
  obtain r s' w' where "Put cfg ev (s, w) bs = (r, (s', w'))"
    by (metis prod.exhaust)
  with Put_inv [of mn ms s cfg ev w bs r s' w'] assms st OpPut show ?thesis by simp
next
  case (OpDelete ev i)
  obtain s w where st: "st = (s, w)" by (cases st)
  from Delete_inv [of mn ms s ev w i] assms st OpDelete show ?thesis by auto
next
  case (OpRecover ev p)
  obtain s w where st: "st = (s, w)" by (cases st)
  obtain fi err where ls: "lstat w p = (fi, err)" by (cases "lstat w p")
  obtain r s' w' where "Recover cfg ev (s, w) p fi err = (r, (s', w'))"
    by (metis prod.exhaust)
  with Recover_inv [of mn ms s fi cfg ev w p err r s' w'] lstat_Size [OF ls] assms st OpRecover ls
  show ?thesis by simp
qed

lemma run_inv:
  "store_inv mn ms (fst st) \<Longrightarrow> \<exists>st'. run cfg xs st = Some st' \<and> store_inv mn ms (fst st')"
proof (induction xs arbitrary: st)
  case Nil
  then show ?case by simp
next
  case (Cons x xs)
  from step_inv [OF Cons.prems, of cfg x] obtain st1
    where s1: "step cfg x st = Some st1" and i1: "store_inv mn ms (fst st1)" by blast
  from Cons.IH [OF i1] s1 show ?case by simp
qed

lemma new_store_inv: "store_inv mn ms (new_store d mn ms)"
  by (simp add: store_inv_def quota_ok_def entries_ok_def new_store_def)

subsection \<open>The handler's rollback\<close>

text \<open>
  When the reservation succeeded and the store's Put fails without touching the tracker,
  \<open>FreeSpace\<close> puts the counters back.
\<close>

lemma handlePost_rollback:
  assumes "getContentFromForm r = Inr bs"
    and "MakeSpaceFor st (int (length bs)) = (None, st1)"
    and "put bs (st1, store) = (Inl e, (st1, store2))"
  shows "fst (snd (handlePost cfg put w r (st, store, armed))) = st"
  using assms
  by (auto simp: handlePost_def Let_def MakeSpaceFor_def FreeSpace_def freeSpace_def
      makeSpaceFor_def split: option.splits)

section \<open>Reader safety of the mapped backend\<close>

text \<open>
  C1. A Get that starts before a Delete of the same id should finish its read before
  the mapping is unmapped and the file removed. On the code it does not: a paste is put,
  a Get returns the handle \<open>h_live\<close> (one reader counted, on the handle's copy of the
  entry) through which the content can be read; the Delete that follows returns at once
  with no error, the region is unmapped and the file removed, and a read through the
  still open handle faults.
\<close>

theorem C1_delete_unmaps_under_open_handle:
  "Put cfg0 env0 (new_store ''pastes'' 1 0, w0) [1, 2, 3] = (Inr ''a63d03b9'', (s_live, w_live)) \<and>
   Get s_live ''a63d03b9'' = Inr h_live \<and>
   reading (pcache h_live) = 1 \<and>
   ReadAll w_live h_live = Some [1, 2, 3] \<and>
   Delete env0 (s_live, w_live) ''a63d03b9'' = Some (None, (new_store ''pastes'' 1 0, w_gone)) \<and>
   ReadAll w_gone h_live = None \<and>
   files w_gone ''a6/3d03b9'' = None"
  by (simp add: put_live)
     (simp add: concrete_defs Get_def ReadAll_def Delete_def os_Munmap_def os_Remove_def
       freeSpace_def Let_def)

section \<open>The quota ceilings\<close>

text \<open>
  C2. From a store whose counters respect the ceilings, every sequence of Put, Delete
  and Recover operations runs to its end, and after each of its prefixes (that is, at
  every instant between two operations) the counters respect the ceilings:
  \<open>currentCount \<le> MaxNumber\<close> when \<open>MaxNumber > 0\<close> and \<open>currentBytes \<le> MaxStorage\<close> when
  \<open>MaxStorage > 0\<close>. The ceilings themselves never change.
\<close>

theorem C2_quota_invariant:
  assumes "quota_ok (stats s)" and "entries_ok s"
  shows "\<exists>s' w'. run cfg (take k xs) (s, w) = Some (s', w') \<and> quota_ok (stats s') \<and>
           MaxNumber (stats s') = MaxNumber (stats s) \<and> MaxStorage (stats s') = MaxStorage (stats s)"
proof -
  from assms have "store_inv (MaxNumber (stats s)) (MaxStorage (stats s)) (fst (s, w))"
    by (simp add: store_inv_def)
  from run_inv [OF this, of cfg "take k xs"] show ?thesis
    by (auto simp: store_inv_def)
qed

theorem C2_quota_invariant_witness:
  "quota_ok (stats (new_store ''pastes'' 1 0)) \<and> entries_ok (new_store ''pastes'' 1 0) \<and>
   (\<exists>s' w'. run cfg0 (take 4 ops0) (new_store ''pastes'' 1 0, w_disk) = Some (s', w') \<and>
      currentCount (stats s') \<le> 1)"
proof -
  have q: "quota_ok (stats (new_store ''pastes'' 1 0))"
    by (simp add: quota_ok_def new_store_def)
  have e: "entries_ok (new_store ''pastes'' 1 0)"
    by (simp add: entries_ok_def new_store_def)
  from C2_quota_invariant [OF q e, of cfg0 4 ops0 w_disk] obtain s' w'
    where r: "run cfg0 (take 4 ops0) (new_store ''pastes'' 1 0, w_disk) = Some (s', w')"
      and k: "quota_ok (stats s')"
      and m: "MaxNumber (stats s') = MaxNumber (stats (new_store ''pastes'' 1 0))"
    by blast
  from m have "MaxNumber (stats s') = 1" by (simp add: new_store_def)
  with k have "currentCount (stats s') \<le> 1" by (simp add: quota_ok_def)
  with q e r show ?thesis by blast
qed

section \<open>Recovery\<close>

text \<open>
  C3. Recover, called for a regular file whose name is an id and whose modification time
  is older than the start time minus the lifetime (with the lifetime enabled), or whose
  size is zero, only removes the file: its result is that of \<open>os.Remove\<close> (no error, and
  the file gone, when the removal does not fail), the store is returned unchanged (no
  entry, no reservation), no timer is armed and nothing is mapped; a Get of an id that
  had no entry before still returns ErrPasteNotFound.
\<close>

theorem C3_recover_discards:
  assumes "\<not> IsDir fi" and "idFromPath cfg p = Inr i"
    and "(lifeTime cfg > 0 \<and> ModTime fi < startTime cfg - lifeTime cfg) \<or> Size fi = 0"
  shows "\<exists>r w'. Recover cfg ev (s, w) p fi None = (r, (s, w')) \<and>
           os_Remove ev w p = (r, w') \<and>
           (remove_err ev = None \<and> files w p \<noteq> None \<longrightarrow> r = None) \<and>
           (r = None \<longrightarrow> files w' p = None) \<and>
           timers w' = timers w \<and> mapped w' = mapped w \<and>
           (cache s i = None \<longrightarrow> Get s i = Inl ErrPasteNotFound)"
proof -
  obtain r w' where rm: "os_Remove ev w p = (r, w')"
    by (cases "os_Remove ev w p")
  from assms(3)
  have "(lifeTime cfg > 0 \<and> ModTime fi + lifeTime cfg - startTime cfg \<le> 0) \<or> Size fi = 0"
    by auto
  from Recover_discards [OF assms(1,2) this, of ev s w] rm
  have "Recover cfg ev (s, w) p fi None = (r, (s, w'))" by simp
  with rm os_Remove_effect [OF rm] show ?thesis
    by (auto simp: Get_def)
qed

theorem C3_recover_discards_witness:
  "Recover cfg0 env0 (new_store ''pastes'' 0 0, w_disk) ''a6/3d03b9'' fi_old None
     = (None, (new_store ''pastes'' 0 0, w_disk\<lparr>files := (files w_disk)(''a6/3d03b9'' := None)\<rparr>)) \<and>
   Get (new_store ''pastes'' 0 0) ''a63d03b9'' = Inl ErrPasteNotFound \<and>
   Recover cfg0 env0 (new_store ''pastes'' 0 0, w_disk) ''00/ff00ff'' fi_empty None
     = (None, (new_store ''pastes'' 0 0, w_disk\<lparr>files := (files w_disk)(''00/ff00ff'' := None)\<rparr>)) \<and>
   Get (new_store ''pastes'' 0 0) ''00ff00ff'' = Inl ErrPasteNotFound"
proof -
  have d: "\<not> IsDir fi_old" "\<not> IsDir fi_empty"
    by (simp_all add: fi_old_def fi_empty_def)
  have i1: "idFromPath cfg0 ''a6/3d03b9'' = Inr ''a63d03b9''"
    and i2: "idFromPath cfg0 ''00/ff00ff'' = Inr ''00ff00ff''"
    by (simp_all add: cfg0_def)
  have x1: "(lifeTime cfg0 > 0 \<and> ModTime fi_old < startTime cfg0 - lifeTime cfg0) \<or> Size fi_old = 0"
    by (simp add: cfg0_def fi_old_def)
  have x2: "(lifeTime cfg0 > 0 \<and> ModTime fi_empty < startTime cfg0 - lifeTime cfg0) \<or> Size fi_empty = 0"
    by (simp add: fi_empty_def)
  have r1: "os_Remove env0 w_disk ''a6/3d03b9''
              = (None, w_disk\<lparr>files := (files w_disk)(''a6/3d03b9'' := None)\<rparr>)"
    and r2: "os_Remove env0 w_disk ''00/ff00ff''
              = (None, w_disk\<lparr>files := (files w_disk)(''00/ff00ff'' := None)\<rparr>)"
    by (simp_all add: os_Remove_def env0_def w_disk_def)
  have n: "cache (new_store ''pastes'' 0 0) ''a63d03b9'' = None"
          "cache (new_store ''pastes'' 0 0) ''00ff00ff'' = None"
    by (simp_all add: new_store_def)
  from C3_recover_discards [OF d(1) i1 x1, of env0 "new_store ''pastes'' 0 0" w_disk]
       C3_recover_discards [OF d(2) i2 x2, of env0 "new_store ''pastes'' 0 0" w_disk]
       r1 r2 n
  show ?thesis by auto
qed

section \<open>Round trip\<close>

text \<open>
  C4. When Put of a content succeeds and returns an id, a Get of that id on the
  resulting store succeeds, and reading its handle yields exactly the content. (A
  successful Put has a non-empty content: an empty file cannot be mapped.)
\<close>

theorem C4_put_get_roundtrip:
  assumes "Put cfg ev (s, w) bs = (Inr i, (s', w'))"
  shows "\<exists>h. Get s' i = Inr h \<and> ReadAll w' h = Some bs"
  using Put_Inr [OF assms] by (simp add: Get_def ReadAll_def)

theorem C4_put_get_roundtrip_witness:
  "Put cfg0 env0 (new_store ''pastes'' 1 0, w0) [1, 2, 3] = (Inr ''a63d03b9'', (s_live, w_live)) \<and>
   Get s_live ''a63d03b9'' = Inr h_live \<and> ReadAll w_live h_live = Some [1, 2, 3]"
proof -
  from C4_put_get_roundtrip [OF put_live] obtain h
    where g: "Get s_live ''a63d03b9'' = Inr h" and r: "ReadAll w_live h = Some [1, 2, 3]"
    by blast
  have "Get s_live ''a63d03b9'' = Inr h_live"
    by (simp add: Get_def s_live_def c_live_def h_live_def)
  with g r put_live show ?thesis by simp
qed

section \<open>Recovery of a live file\<close>




section \<open>Malformed entries during recovery\<close>

text \<open>
  C6, as amended. An empty file whose name is an id is handled inside Recover: it is
  removed, the store is untouched and the result is that of the removal, no error when
  the removal does not fail. A file whose name is no id is not discarded: Recover
  returns the error of \<open>idFromPath\<close> to the walk that called it and leaves the file and
  the store as they were.
\<close>

theorem C6_recover_malformed:
  assumes "\<not> IsDir fi"
  shows "(idFromPath cfg p = Inl e \<longrightarrow> Recover cfg ev (s, w) p fi None = (Some e, (s, w))) \<and>
         (idFromPath cfg p = Inr i \<and> Size fi = 0 \<longrightarrow>
            (\<exists>r w'. Recover cfg ev (s, w) p fi None = (r, (s, w')) \<and>
               os_Remove ev w p = (r, w') \<and>
               (remove_err ev = None \<and> files w p \<noteq> None \<longrightarrow> r = None \<and> files w' p = None)))"
proof (intro conjI impI)
  assume "idFromPath cfg p = Inl e"
  from Recover_unparsable [OF assms this]
  show "Recover cfg ev (s, w) p fi None = (Some e, (s, w))" .
next
  assume a: "idFromPath cfg p = Inr i \<and> Size fi = 0"
  obtain r w' where rm: "os_Remove ev w p = (r, w')"
    by (cases "os_Remove ev w p")
  from a have "(lifeTime cfg > 0 \<and> ModTime fi + lifeTime cfg - startTime cfg \<le> 0) \<or> Size fi = 0"
    by simp
  from Recover_discards [OF assms _ this, of p i ev s w] a rm
  have "Recover cfg ev (s, w) p fi None = (r, (s, w'))" by simp
  with rm os_Remove_effect [OF rm]
  show "\<exists>r w'. Recover cfg ev (s, w) p fi None = (r, (s, w')) \<and>
               os_Remove ev w p = (r, w') \<and>
               (remove_err ev = None \<and> files w p \<noteq> None \<longrightarrow> r = None \<and> files w' p = None)"
    by auto
qed

theorem C6_recover_malformed_witness:
  "Recover cfg0 env0 (new_store ''pastes'' 0 0, w_disk) ''README'' fi_half None
     = (Some (InvalidPath ''README''), (new_store ''pastes'' 0 0, w_disk)) \<and>
   Recover cfg0 env0 (new_store ''pastes'' 0 0, w_disk) ''00/ff00ff'' fi_empty None
     = (None, (new_store ''pastes'' 0 0, w_disk\<lparr>files := (files w_disk)(''00/ff00ff'' := None)\<rparr>))"
proof -
  have d: "\<not> IsDir fi_half" "\<not> IsDir fi_empty"
    by (simp_all add: fi_half_def fi_empty_def)
  have i1: "idFromPath cfg0 ''README'' = Inl (InvalidPath ''README'')"
    by (simp add: cfg0_def)
  have i2: "idFromPath cfg0 ''00/ff00ff'' = Inr ''00ff00ff'' \<and> Size fi_empty = 0"
    by (simp add: cfg0_def fi_empty_def)
  have r2: "os_Remove env0 w_disk ''00/ff00ff''
              = (None, w_disk\<lparr>files := (files w_disk)(''00/ff00ff'' := None)\<rparr>)"
    by (simp add: os_Remove_def env0_def w_disk_def)
  from C6_recover_malformed [OF d(1), of cfg0 "''README''" "InvalidPath ''README''" env0
         "new_store ''pastes'' 0 0" w_disk] i1
       C6_recover_malformed [OF d(2), of cfg0 "''00/ff00ff''" _ env0
         "new_store ''pastes'' 0 0" w_disk "''00ff00ff''"] i2 r2
  show ?thesis by auto
qed

text \<open>
  The claim as stated fails for the unparsable name: Recover returns the error, and the
  file is still there.
\<close>

theorem C6_counterexample:
  "\<not> IsDir fi_half \<and>
   idFromPath cfg0 ''README'' = Inl (InvalidPath ''README'') \<and>
   Recover cfg0 env0 (new_store ''pastes'' 0 0, w_disk) ''README'' fi_half None
     = (Some (InvalidPath ''README''), (new_store ''pastes'' 0 0, w_disk)) \<and>
   files w_disk ''README'' = Some (File 950 [7, 8, 9])"
  by (simp add: Recover_def cfg0_def fi_half_def w_disk_def)

section \<open>Delete of an absent id\<close>

text \<open>
  C8. Delete on an id that has no entry in the table returns ErrPasteNotFound and
  changes nothing: the store, its quota counters included, and the files and mappings
  are as before.
\<close>

theorem C8_delete_absent:
  assumes "cache s i = None"
  shows "Delete ev (s, w) i = Some (Some ErrPasteNotFound, (s, w))"
  using assms by (simp add: Delete_def)

theorem C8_delete_absent_witness:
  "cache (new_store ''pastes'' 1 0) ''a63d03b9'' = None \<and>
   Delete env0 (new_store ''pastes'' 1 0, w0) ''a63d03b9''
     = Some (Some ErrPasteNotFound, (new_store ''pastes'' 1 0, w0))"
proof -
  have h: "cache (new_store ''pastes'' 1 0) ''a63d03b9'' = None"
    by (simp add: new_store_def)
  show ?thesis
    using h C8_delete_absent [OF h, of env0 w0] by simp
qed

section \<open>A Delete that fails half way\<close>

text \<open>
  C9. When Delete of a live entry returns an error, the error is that of the unmapping
  or of the removal of the file, the entry is already out of the table and the counters
  are as before the call: the quota of the paste stays charged. A Get of the id then
  returns ErrPasteNotFound, and so does every further Delete, which changes nothing and
  so releases nothing.
\<close>

theorem C9_failed_delete_leaks:
  assumes "cache s i = Some c" and "Delete ev (s, w) i = Some (Some e, (s', w'))"
  shows "(os_Munmap ev w (mmap c) = (Some e, w') \<or>
          (\<exists>w1. os_Munmap ev w (mmap c) = (None, w1) \<and>
                os_Remove ev w1 (path c) = (Some e, w'))) \<and>
         cache s' i = None \<and> stats s' = stats s \<and>
         Get s' i = Inl ErrPasteNotFound \<and>
         (\<forall>ev2 w2. Delete ev2 (s', w2) i = Some (Some ErrPasteNotFound, (s', w2)))"
proof -
  from Delete_error [OF assms]
  have s': "s' = s\<lparr>cache := (cache s)(i := None)\<rparr>"
    and why: "os_Munmap ev w (mmap c) = (Some e, w') \<or>
          (\<exists>w1. os_Munmap ev w (mmap c) = (None, w1) \<and>
                os_Remove ev w1 (path c) = (Some e, w'))"
    by simp_all
  from s' have gone: "cache s' i = None" by simp
  from s' have "stats s' = stats s" by simp
  moreover from gone have "Get s' i = Inl ErrPasteNotFound" by (simp add: Get_def)
  moreover from gone
  have "\<forall>ev2 w2. Delete ev2 (s', w2) i = Some (Some ErrPasteNotFound, (s', w2))"
    by (simp add: Delete_def)
  ultimately show ?thesis using why gone by blast
qed

theorem C9_failed_delete_leaks_witness:
  "Delete env_munmap_fails (s_live, w_live) ''a63d03b9''
     = Some (Some (Errno ''ENOMEM''), (s_leak, w_live)) \<and>
   Delete env_remove_fails (s_live, w_live) ''a63d03b9''
     = Some (Some (Errno ''EACCES''), (s_leak, w_unmapped)) \<and>
   stats s_leak = stats s_live \<and>
   Get s_leak ''a63d03b9'' = Inl ErrPasteNotFound \<and>
   Delete env0 (s_leak, w_unmapped) ''a63d03b9''
     = Some (Some ErrPasteNotFound, (s_leak, w_unmapped))"
proof -
  have c: "cache s_live ''a63d03b9'' = Some c_live"
    by (simp add: s_live_def)
  have d1: "Delete env_munmap_fails (s_live, w_live) ''a63d03b9''
              = Some (Some (Errno ''ENOMEM''), (s_leak, w_live))"
    by (simp add: concrete_defs Delete_def os_Munmap_def Let_def)
  have d2: "Delete env_remove_fails (s_live, w_live) ''a63d03b9''
              = Some (Some (Errno ''EACCES''), (s_leak, w_unmapped))"
    by (simp add: concrete_defs Delete_def os_Munmap_def os_Remove_def Let_def)
  from C9_failed_delete_leaks [OF c d1] C9_failed_delete_leaks [OF c d2] d1 d2
  show ?thesis by simp
qed

section \<open>The POST handler and the quota\<close>

text \<open>
  C7. After a failed Put the counters should be what they were before it. The handler
  releases the quota when the store's Put fails, whether or not the reservation had
  succeeded: with the count at its ceiling the reservation is refused, the handler goes
  on to Put, Put fails, and \<open>FreeSpace\<close> takes from the counters what was never added.
  One paste of three bytes is accounted for before the request, none and two bytes after.
\<close>

theorem C7_release_without_reservation:
  "MakeSpaceFor stats_full 1 = (Some QuotaExceeded, stats_full) \<and>
   handlePost cfg0 put_fails resp0 req_x (stats_full, (), [])
     = (\<lparr>status = 503, body = ''quota exceeded'' @ [CHR 0x0A] @ ''EIO'' @ [CHR 0x0A]\<rparr>,
        (\<lparr>currentCount = 0, currentBytes = 2, MaxNumber = 1, MaxStorage = 0\<rparr>, (), [])) \<and>
   currentCount stats_full = 1 \<and> currentBytes stats_full = 3"
  by (simp add: handlePost_def getContentFromForm_def MakeSpaceFor_def hasSpaceFor_def
      FreeSpace_def freeSpace_def put_fails_def http_Error_def Write_def WriteHeader_def cfg0_def
      StatusServiceUnavailable_def StatusInternalServerError_def stats_full_def req_x_def
      resp0_def)

text \<open>
  C10. When \<open>MakeSpaceFor\<close> returns an error the handler writes the
  service-unavailable response and goes on: it calls the store's Put with the content,
  and when that succeeds it arms the deletion timer for the new id and appends the
  paste's URL to the response it has already begun.
\<close>

theorem C10_post_continues_after_refusal:
  assumes "getContentFromForm r = Inr bs"
    and "MakeSpaceFor st (int (length bs)) = (Some e, st1)"
    and "put bs (st1, store) = (Inr i, (st2, store2))"
  shows "handlePost cfg put w r (st, store, armed) =
           (Write (http_Error w (errMsg cfg e) StatusServiceUnavailable)
                  (siteURL cfg @ ''/'' @ i @ [CHR 0x0A]),
            (st2, store2, armed @ [(i, int (length bs), lifeTime cfg)]))"
  using assms by (simp add: handlePost_def Let_def)

theorem C10_post_continues_after_refusal_witness:
  "handlePost cfg0 put_ok resp0 req_x (stats_full, (), [])
     = (\<lparr>status = 503,
         body = ''quota exceeded'' @ [CHR 0x0A] @ ''http://paste.cat/a63d03b9'' @ [CHR 0x0A]\<rparr>,
        (stats_full, (), [(''a63d03b9'', 1, 100)]))"
proof -
  have a1: "getContentFromForm req_x = Inr [120]"
    by (simp add: getContentFromForm_def req_x_def)
  have a2: "MakeSpaceFor stats_full (int (length [120 :: byte])) = (Some QuotaExceeded, stats_full)"
    by (simp add: MakeSpaceFor_def hasSpaceFor_def stats_full_def)
  have a3: "put_ok [120] (stats_full, ()) = (Inr ''a63d03b9'', (stats_full, ()))"
    by (simp add: put_ok_def)
  from C10_post_continues_after_refusal
         [where put = put_ok and cfg = cfg0 and w = resp0 and armed = "[]", OF a1 a2 a3]
  show ?thesis
    by (simp add: http_Error_def Write_def WriteHeader_def StatusServiceUnavailable_def
        cfg0_def resp0_def)
qed

end
